theory Spec2Isabelle
  imports Complex_Main
begin

section \<open>The presentation controller of script.js\<close>

text \<open>
  The script defines one class, \<open>PresentationController\<close>, whose instance holds the
  navigation state and the mode flags and keeps references to a handful of DOM nodes.
  The model is a record of the instance fields together with the part of the document
  the methods read and write. Methods are functions from states to outcomes; an uncaught
  exception is an outcome of its own that carries the state reached when it was thrown,
  because the event loop goes on with that state.
\<close>

subsection \<open>Class lists and slides\<close>

text \<open>A \<open>classList\<close> is an ordered set of tokens: \<open>add\<close> appends a token that is
  absent, \<open>remove\<close> deletes it, \<open>toggle(token, force)\<close> adds or removes by the flag.\<close>

type_synonym classList = "string list"

definition classAdd :: "string \<Rightarrow> classList \<Rightarrow> classList" where
  "classAdd c cs = (if c \<in> set cs then cs else cs @ [c])"

definition classRemove :: "string \<Rightarrow> classList \<Rightarrow> classList" where
  "classRemove c cs = removeAll c cs"

definition classToggle :: "string \<Rightarrow> bool \<Rightarrow> classList \<Rightarrow> classList" where
  "classToggle c force cs = (if force then classAdd c cs else classRemove c cs)"

text \<open>A slide element: its class list, its \<open>aria-hidden\<close> attribute (absent or a
  string) and the text of its first \<open>h1\<close> or \<open>h2\<close> descendant, if it has one.\<close>

record slide =
  classes :: classList
  ariaHidden :: "string option"
  heading :: "string option"

subsection \<open>Timers, effects and errors\<close>

text \<open>The callbacks the script hands to \<open>setTimeout\<close>, one constructor per closure.
  \<open>SlideEnter prev\<close> and \<open>SlideCleanup prev\<close> are the two closures of
  \<open>goToSlide\<close>, which capture the slide that was left.\<close>

datatype task =
    LoadComplete
  | HideLoadingScreen
  | SlideEnter int
  | SlideCleanup int
  | HideCursor
  | RemoveAnnouncement nat
  | ResizeSettled

datatype vendor = Standard | Webkit | Moz | Ms

text \<open>What the controller does to the outside and never reads back. The reveal
  animations only restyle descendants of a slide, so they are recorded by slide number.\<close>

datatype effect =
    PreventDefault
  | ReplaceState string
  | ResetAnimations int
  | AnimateComponents int
  | AnimateDescription int
  | AnimateArchitecture int
  | AnimateTechnologies int
  | PlayTone
  | ConsoleLog string
  | RequestFullscreen vendor
  | ExitFullscreen vendor

datatype error = TypeError

subsection \<open>The state\<close>

record state =
  currentSlide :: int
  totalSlides :: int
  isFullscreen :: bool
  isPresentationMode :: bool
  soundEnabled :: bool
  touchStartX :: int
  touchEndX :: int
  cursorTimeout :: "nat option"
  isLoaded :: bool
  slides :: "slide list"
  navDots :: "classList list"
  presentation :: classList
  progressFill :: "rat option"
  soundToggle :: classList
  soundIcon :: string
  loadingScreen :: classList
  loadingDisplay :: "string option"
  particles :: nat
  announcements :: "(nat \<times> string) list"
  locationHash :: string
  audioContext :: bool
  requestApis :: "vendor list"
  exitApis :: "vendor list"
  timers :: "(nat \<times> nat \<times> task) list"
  nextTimer :: nat
  effects :: "effect list"

text \<open>
  The first nine fields are the instance fields of the constructor. Then the document:
  the \<open>.slide\<close> and \<open>.nav-dot\<close> node lists, the class list of \<open>#presentation\<close>,
  the width of \<open>.progress-fill\<close> in percent (the exact quotient; the script computes it
  in double precision), the class list of \<open>#sound-toggle\<close> and the \<open>className\<close> of its
  icon, the class list and \<open>style.display\<close> of \<open>#loading-screen\<close>, the number of
  particle nodes, the live regions appended to the body (each with the id of the timer
  that removes it) and \<open>window.location.hash\<close>. Then the browser: whether an audio
  context can be built, which fullscreen entry points exist, the pending timers
  (id, delay in ms, callback), the next timer id, and the log of effects.
  Screen coordinates are whole pixels.
\<close>

datatype outcome = Done state | Threw error state

fun state_of :: "outcome \<Rightarrow> state" where
  "state_of (Done s) = s"
| "state_of (Threw e s) = s"

fun andThen :: "outcome \<Rightarrow> (state \<Rightarrow> outcome) \<Rightarrow> outcome" where
  "andThen (Done s) f = f s"
| "andThen (Threw e s) f = Threw e s"

definition emit :: "effect \<Rightarrow> state \<Rightarrow> state" where
  "emit e s = s\<lparr>effects := effects s @ [e]\<rparr>"

definition setTimeout :: "nat \<Rightarrow> task \<Rightarrow> state \<Rightarrow> state" where
  "setTimeout delay t s =
     s\<lparr>timers := timers s @ [(nextTimer s, delay, t)], nextTimer := nextTimer s + 1\<rparr>"

definition clearTimeout :: "nat \<Rightarrow> state \<Rightarrow> state" where
  "clearTimeout k s = s\<lparr>timers := filter (\<lambda>t. fst t \<noteq> k) (timers s)\<rparr>"

text \<open>\<open>this.slides[k]\<close>: \<open>undefined\<close> outside the node list, and every use of the
  result dereferences it.\<close>

definition slideAt :: "state \<Rightarrow> int \<Rightarrow> slide option" where
  "slideAt s k = (if 0 \<le> k \<and> nat k < length (slides s) then Some (slides s ! nat k) else None)"

definition setSlide :: "int \<Rightarrow> slide \<Rightarrow> state \<Rightarrow> state" where
  "setSlide k sl s = s\<lparr>slides := (slides s)[nat k := sl]\<rparr>"

subsection \<open>Numbers and strings of the language\<close>

definition digitChar :: "nat \<Rightarrow> char" where
  "digitChar d = char_of (48 + d)"

fun natToString :: "nat \<Rightarrow> string" where
  "natToString n =
     (if n < 10 then [digitChar n] else natToString (n div 10) @ [digitChar (n mod 10)])"

declare natToString.simps [simp del]

definition intToString :: "int \<Rightarrow> string" where
  "intToString i = (if i < 0 then CHR ''-'' # natToString (nat (- i)) else natToString (nat i))"

definition boolToString :: "bool \<Rightarrow> string" where
  "boolToString b = (if b then ''true'' else ''false'')"

text \<open>\<open>parseInt\<close> with no radix: leading white space, a sign, a \<open>0x\<close> prefix, then
  the longest run of digits of the radix; \<open>NaN\<close> (here \<open>None\<close>) when that run is empty.
  Characters are bytes, so the white space is that of the ASCII range. The script applies
  it to a key name from \<open>1\<close> to \<open>7\<close> and to the group of the hash pattern.\<close>

definition isWhiteSpace :: "char \<Rightarrow> bool" where
  "isWhiteSpace c = (c \<in> set [CHR 0x09, CHR 0x0A, CHR 0x0B, CHR 0x0C, CHR 0x0D, CHR 0x20])"

definition digitVal :: "char \<Rightarrow> nat option" where
  "digitVal c =
     (let k = of_char c :: nat in
      if 48 \<le> k \<and> k \<le> 57 then Some (k - 48)
      else if 97 \<le> k \<and> k \<le> 122 then Some (k - 87)
      else if 65 \<le> k \<and> k \<le> 90 then Some (k - 55)
      else None)"

fun readDigits :: "nat \<Rightarrow> string \<Rightarrow> nat list" where
  "readDigits r [] = []"
| "readDigits r (c # cs) =
     (case digitVal c of
        None \<Rightarrow> []
      | Some d \<Rightarrow> if d < r then d # readDigits r cs else [])"

definition fromDigits :: "nat \<Rightarrow> nat list \<Rightarrow> nat" where
  "fromDigits r ds = foldl (\<lambda>a d. a * r + d) 0 ds"

definition parseInt :: "string \<Rightarrow> int option" where
  "parseInt str =
     (let t = dropWhile isWhiteSpace str;
          neg = (take 1 t = ''-'');
          u = (if take 1 t = ''-'' \<or> take 1 t = ''+'' then drop 1 t else t);
          hex = (take 2 u = ''0x'' \<or> take 2 u = ''0X'');
          radix = (if hex then 16 else 10);
          ds = readDigits radix (if hex then drop 2 u else u)
      in if ds = [] then None
         else Some ((if neg then - 1 else 1) * int (fromDigits radix ds)))"

text \<open>\<open>hash.match(/#slide(\\d+)/)\<close>. In a regular expression literal \<open>\\\<close> is an
  escaped backslash, so the pattern is the text \<open>#slide\<close>, a backslash, and one or more
  letters \<open>d\<close>; the group is the backslash with the longest run of \<open>d\<close> after it. The
  search is unanchored and takes the leftmost match. The result is the group, or
  \<open>None\<close> for \<open>null\<close>.\<close>

definition matchHere :: "string \<Rightarrow> string option" where
  "matchHere str =
     (if take 7 str = ''#slide'' @ [CHR 0x5C] \<and> takeWhile (\<lambda>c. c = CHR ''d'') (drop 7 str) \<noteq> []
      then Some (CHR 0x5C # takeWhile (\<lambda>c. c = CHR ''d'') (drop 7 str))
      else None)"

fun slideMatch :: "string \<Rightarrow> string option" where
  "slideMatch [] = None"
| "slideMatch (c # cs) =
     (case matchHere (c # cs) of Some g \<Rightarrow> Some g | None \<Rightarrow> slideMatch cs)"

subsection \<open>Updating the indicators\<close>

text \<open>The progress is \<open>currentSlide / totalSlides * 100\<close>; \<open>totalSlides\<close> is 7 from the
  constructor on and nothing assigns it, so the quotient never has a zero divisor.\<close>

definition updateProgress :: "state \<Rightarrow> state" where
  "updateProgress s =
     s\<lparr>progressFill := Some (of_int (currentSlide s) / of_int (totalSlides s) * 100)\<rparr>"

definition updateNavDots :: "state \<Rightarrow> state" where
  "updateNavDots s =
     s\<lparr>navDots := map (\<lambda>(index, dot). classToggle ''active'' (int index + 1 = currentSlide s) dot)
                       (enumerate 0 (navDots s))\<rparr>"

definition updateURL :: "state \<Rightarrow> state" where
  "updateURL s =
     (let newHash = ''#slide'' @ intToString (currentSlide s) in
      if locationHash s \<noteq> newHash
      then emit (ReplaceState newHash) (s\<lparr>locationHash := newHash\<rparr>)
      else s)"

text \<open>\<open>playTransitionSound\<close>: the body of the \<open>try\<close> builds an audio context and
  plays the tone; when none can be built the \<open>catch\<close> logs a line.\<close>

definition playTransitionSound :: "state \<Rightarrow> state" where
  "playTransitionSound s =
     (if \<not> soundEnabled s then s
      else if audioContext s then emit PlayTone s
      else emit (ConsoleLog ''Audio context not supported'') s)"

definition triggerSlideAnimations :: "int \<Rightarrow> state \<Rightarrow> outcome" where
  "triggerSlideAnimations slideNumber s =
     (case slideAt s (slideNumber - 1) of
        None \<Rightarrow> Threw TypeError s
      | Some sl \<Rightarrow>
          (let s1 = emit (ResetAnimations slideNumber) s in
           Done (if slideNumber = 2 then emit (AnimateComponents slideNumber) s1
                 else if slideNumber = 3 then emit (AnimateDescription slideNumber) s1
                 else if slideNumber = 4 then emit (AnimateArchitecture slideNumber) s1
                 else if slideNumber = 5 then emit (AnimateTechnologies slideNumber) s1
                 else s1)))"

definition announceSlideChange :: "state \<Rightarrow> state" where
  "announceSlideChange s =
     setTimeout 1000 (RemoveAnnouncement (nextTimer s))
       (s\<lparr>announcements := announcements s @
             [(nextTimer s,
               ''Slide '' @ intToString (currentSlide s) @ '' of '' @ intToString (totalSlides s))]\<rparr>)"

subsection \<open>Navigation\<close>

text \<open>The method \<open>goToSlide\<close> of the class. \<open>setupAccessibility\<close> binds it to the
  name \<open>originalGoToSlide\<close> and installs a wrapper under the name \<open>goToSlide\<close>; every
  call made after construction reaches the wrapper.\<close>

definition originalGoToSlide :: "int \<Rightarrow> state \<Rightarrow> outcome" where
  "originalGoToSlide slideNumber s =
     (if slideNumber < 1 \<or> slideNumber > totalSlides s \<or> slideNumber = currentSlide s then Done s
      else
        (case slideAt s (currentSlide s - 1) of
           None \<Rightarrow> Threw TypeError s
         | Some old \<Rightarrow>
             (let s1 = setSlide (currentSlide s - 1)
                         (old\<lparr>classes := classAdd ''prev'' (classRemove ''active'' (classes old))\<rparr>) s;
                  prev = currentSlide s1;
                  s2 = s1\<lparr>currentSlide := slideNumber\<rparr>;
                  s3 = setTimeout 50 (SlideEnter prev) s2;
                  s4 = updateURL (updateNavDots (updateProgress s3))
              in andThen (triggerSlideAnimations (currentSlide s4) s4)
                   (\<lambda>s5. Done (announceSlideChange (playTransitionSound s5))))))"

text \<open>The loop both halves of \<open>setupAccessibility\<close> run over the slides.\<close>

definition setAriaHidden :: "state \<Rightarrow> state" where
  "setAriaHidden s =
     s\<lparr>slides := map (\<lambda>(index, sl). sl\<lparr>ariaHidden := Some (boolToString (int index + 1 \<noteq> currentSlide s))\<rparr>)
                      (enumerate 0 (slides s))\<rparr>"

definition goToSlide :: "int \<Rightarrow> state \<Rightarrow> outcome" where
  "goToSlide slideNumber s =
     andThen (originalGoToSlide slideNumber s) (\<lambda>s1. Done (setAriaHidden s1))"

definition nextSlide :: "state \<Rightarrow> outcome" where
  "nextSlide s =
     (if currentSlide s < totalSlides s then goToSlide (currentSlide s + 1) s else Done s)"

definition previousSlide :: "state \<Rightarrow> outcome" where
  "previousSlide s =
     (if currentSlide s > 1 then goToSlide (currentSlide s - 1) s else Done s)"

definition handleHashNavigation :: "state \<Rightarrow> outcome" where
  "handleHashNavigation s =
     (case slideMatch (locationHash s) of
        None \<Rightarrow> Done s
      | Some g \<Rightarrow>
          (case parseInt g of
             None \<Rightarrow> Done s
           | Some slideNumber \<Rightarrow>
               if slideNumber \<ge> 1 \<and> slideNumber \<le> totalSlides s then goToSlide slideNumber s
               else Done s))"

subsection \<open>Touch\<close>

definition handleSwipe :: "state \<Rightarrow> outcome" where
  "handleSwipe s =
     (let swipeThreshold = 50; swipeDistance = touchEndX s - touchStartX s in
      if \<bar>swipeDistance\<bar> > swipeThreshold
      then (if swipeDistance > 0 then previousSlide s else nextSlide s)
      else Done s)"

definition handleTouchStart :: "int \<Rightarrow> state \<Rightarrow> outcome" where
  "handleTouchStart screenX s =
     (if \<not> isLoaded s then Done s
      else
        (let s1 = s\<lparr>touchStartX := screenX\<rparr> in
         Done (if \<bar>screenX - touchStartX s1\<bar> > 10 then emit PreventDefault s1 else s1)))"

definition handleTouchEnd :: "int \<Rightarrow> state \<Rightarrow> outcome" where
  "handleTouchEnd screenX s =
     (if \<not> isLoaded s then Done s else handleSwipe (s\<lparr>touchEndX := screenX\<rparr>))"

subsection \<open>Fullscreen, presentation mode, sound\<close>

definition enterFullscreen :: "state \<Rightarrow> state" where
  "enterFullscreen s =
     (if Standard \<in> set (requestApis s) then emit (RequestFullscreen Standard) s
      else if Webkit \<in> set (requestApis s) then emit (RequestFullscreen Webkit) s
      else if Moz \<in> set (requestApis s) then emit (RequestFullscreen Moz) s
      else if Ms \<in> set (requestApis s) then emit (RequestFullscreen Ms) s
      else s)"

definition exitFullscreen :: "state \<Rightarrow> state" where
  "exitFullscreen s =
     (if Standard \<in> set (exitApis s) then emit (ExitFullscreen Standard) s
      else if Webkit \<in> set (exitApis s) then emit (ExitFullscreen Webkit) s
      else if Moz \<in> set (exitApis s) then emit (ExitFullscreen Moz) s
      else if Ms \<in> set (exitApis s) then emit (ExitFullscreen Ms) s
      else s)"

definition toggleFullscreen :: "state \<Rightarrow> state" where
  "toggleFullscreen s = (if \<not> isFullscreen s then enterFullscreen s else exitFullscreen s)"

text \<open>Timer ids are positive, so a stored id is truthy; the test is kept as written.\<close>

definition clearCursorTimeout :: "state \<Rightarrow> state" where
  "clearCursorTimeout s =
     (case cursorTimeout s of
        None \<Rightarrow> s
      | Some k \<Rightarrow> if k = 0 then s else (clearTimeout k s)\<lparr>cursorTimeout := None\<rparr>)"

definition startCursorTimeout :: "state \<Rightarrow> state" where
  "startCursorTimeout s =
     (let s1 = clearCursorTimeout s in
      (setTimeout 3000 HideCursor s1)\<lparr>cursorTimeout := Some (nextTimer s1)\<rparr>)"

definition enterPresentationMode :: "state \<Rightarrow> state" where
  "enterPresentationMode s =
     startCursorTimeout
       (s\<lparr>isPresentationMode := True,
          presentation := classAdd ''presentation-mode'' (presentation s)\<rparr>)"

definition exitPresentationMode :: "state \<Rightarrow> state" where
  "exitPresentationMode s =
     clearCursorTimeout
       (s\<lparr>isPresentationMode := False,
          presentation := classRemove ''presentation-mode'' (presentation s)\<rparr>)"

definition togglePresentationMode :: "state \<Rightarrow> state" where
  "togglePresentationMode s =
     (if \<not> isPresentationMode s then enterPresentationMode s else exitPresentationMode s)"

text \<open>The four arguments are the truthiness of \<open>document.fullscreenElement\<close> and of
  its three prefixed variants at the moment the notification is delivered.\<close>

definition handleFullscreenChange :: "bool \<Rightarrow> bool \<Rightarrow> bool \<Rightarrow> bool \<Rightarrow> state \<Rightarrow> state" where
  "handleFullscreenChange fullscreenElement webkitFullscreenElement mozFullScreenElement
       msFullscreenElement s =
     (let s1 = s\<lparr>isFullscreen := (fullscreenElement \<or> webkitFullscreenElement \<or>
                                   mozFullScreenElement \<or> msFullscreenElement)\<rparr>;
          s2 = s1\<lparr>presentation := classToggle ''fullscreen'' (isFullscreen s1) (presentation s1)\<rparr>
      in if isFullscreen s2 then enterPresentationMode s2 else s2)"

definition handleMouseMove :: "state \<Rightarrow> state" where
  "handleMouseMove s =
     (if isPresentationMode s
      then startCursorTimeout (s\<lparr>presentation := classRemove ''presentation-mode'' (presentation s)\<rparr>)
      else s)"

definition toggleSound :: "state \<Rightarrow> state" where
  "toggleSound s =
     (let s1 = s\<lparr>soundEnabled := \<not> soundEnabled s\<rparr>;
          s2 = s1\<lparr>soundToggle := classToggle ''muted'' (\<not> soundEnabled s1) (soundToggle s1)\<rparr>
      in s2\<lparr>soundIcon := (if soundEnabled s2 then ''fas fa-volume-up'' else ''fas fa-volume-mute'')\<rparr>)"

definition handleResize :: "state \<Rightarrow> state" where
  "handleResize s = setTimeout 250 ResizeSettled s"

subsection \<open>Keyboard\<close>

definition handleKeyDown :: "string \<Rightarrow> state \<Rightarrow> outcome" where
  "handleKeyDown key s =
     (if \<not> isLoaded s then Done s
      else if key = ''ArrowRight'' \<or> key = '' '' \<or> key = ''PageDown''
        then nextSlide (emit PreventDefault s)
      else if key = ''ArrowLeft'' \<or> key = ''PageUp''
        then previousSlide (emit PreventDefault s)
      else if key = ''Home''
        then goToSlide 1 (emit PreventDefault s)
      else if key = ''End''
        then goToSlide (totalSlides s) (emit PreventDefault s)
      else if key = ''f'' \<or> key = ''F''
        then Done (toggleFullscreen (emit PreventDefault s))
      else if key = ''Escape''
        then (let s1 = emit PreventDefault s;
                  s2 = (if isFullscreen s1 then exitFullscreen s1 else s1)
              in Done (exitPresentationMode s2))
      else if key = ''p'' \<or> key = ''P''
        then Done (togglePresentationMode (emit PreventDefault s))
      else if key = ''1'' \<or> key = ''2'' \<or> key = ''3'' \<or> key = ''4'' \<or> key = ''5'' \<or>
              key = ''6'' \<or> key = ''7''
        then (let s1 = emit PreventDefault s in
              case parseInt key of
                None \<Rightarrow> Done s1
              | Some slideNum \<Rightarrow>
                  if slideNum \<le> totalSlides s1 then goToSlide slideNum s1 else Done s1)
      else Done s)"

subsection \<open>Timer callbacks\<close>

fun runTask :: "task \<Rightarrow> state \<Rightarrow> outcome" where
  "runTask LoadComplete s =
     (let s1 = s\<lparr>loadingScreen := classAdd ''hidden'' (loadingScreen s), isLoaded := True\<rparr>;
          s2 = setTimeout 800 HideLoadingScreen s1
      in andThen (handleHashNavigation s2) (\<lambda>s3. triggerSlideAnimations (currentSlide s3) s3))"
| "runTask HideLoadingScreen s = Done (s\<lparr>loadingDisplay := Some ''none''\<rparr>)"
| "runTask (SlideEnter prev) s =
     (case slideAt s (currentSlide s - 1) of
        None \<Rightarrow> Threw TypeError s
      | Some sl \<Rightarrow>
          Done (setTimeout 800 (SlideCleanup prev)
                  (setSlide (currentSlide s - 1)
                     (sl\<lparr>classes := classRemove ''prev'' (classAdd ''active'' (classes sl))\<rparr>) s)))"
| "runTask (SlideCleanup prev) s =
     (case slideAt s (prev - 1) of
        None \<Rightarrow> Threw TypeError s
      | Some sl \<Rightarrow>
          Done (setSlide (prev - 1) (sl\<lparr>classes := classRemove ''prev'' (classes sl)\<rparr>) s))"
| "runTask HideCursor s =
     Done (if isPresentationMode s
           then s\<lparr>presentation := classAdd ''presentation-mode'' (presentation s)\<rparr>
           else s)"
| "runTask (RemoveAnnouncement k) s =
     Done (s\<lparr>announcements := filter (\<lambda>a. fst a \<noteq> k) (announcements s)\<rparr>)"
| "runTask ResizeSettled s = Done s"

text \<open>A timer that is due leaves the pending list and its callback runs.\<close>

definition fireTimer :: "nat \<Rightarrow> state \<Rightarrow> outcome" where
  "fireTimer k s =
     (case find (\<lambda>t. fst t = k) (timers s) of
        None \<Rightarrow> Done s
      | Some t \<Rightarrow> runTask (snd (snd t)) (clearTimeout k s))"

subsection \<open>The listeners of setupEventListeners\<close>

text \<open>One constructor per listener. A key-down carries \<open>event.key\<close>, a touch start or
  end carries \<open>changedTouches[0].screenX\<close>, a touch move carries \<open>touches.length\<close>,
  a dot click carries the index of the dot, a hash change carries the new fragment, a
  fullscreen change carries what the document reports (see
  \<open>handleFullscreenChange\<close>), and \<open>TimerFires k\<close> is the timer with id \<open>k\<close>
  coming due.\<close>

datatype event =
    KeyDown string
  | TouchStart int
  | TouchEnd int
  | TouchMove nat
  | NavDotClick nat
  | SoundToggleClick
  | MouseMove
  | Resize
  | HashChange string
  | FullscreenChange bool bool bool bool
  | TimerFires nat

fun dispatch :: "event \<Rightarrow> state \<Rightarrow> outcome" where
  "dispatch (KeyDown key) s = handleKeyDown key s"
| "dispatch (TouchStart screenX) s = handleTouchStart screenX s"
| "dispatch (TouchEnd screenX) s = handleTouchEnd screenX s"
| "dispatch (TouchMove n) s = Done (if n > 1 then emit PreventDefault s else s)"
| "dispatch (NavDotClick index) s =
     (if index < length (navDots s) then goToSlide (int index + 1) s else Done s)"
| "dispatch SoundToggleClick s = Done (toggleSound s)"
| "dispatch MouseMove s = Done (handleMouseMove s)"
| "dispatch Resize s = Done (handleResize s)"
| "dispatch (HashChange h) s = handleHashNavigation (s\<lparr>locationHash := h\<rparr>)"
| "dispatch (FullscreenChange fs wk mz ms) s = Done (handleFullscreenChange fs wk mz ms s)"
| "dispatch (TimerFires k) s = fireTimer k s"

subsection \<open>Construction\<close>

text \<open>The document the script finds: the markup is not part of the sources, so it is a
  parameter of the constructor.\<close>

record page =
  pageSlides :: "slide list"
  pageNavDots :: "classList list"
  pagePresentation :: classList
  pageSoundToggle :: classList
  pageSoundIcon :: string
  pageLoadingScreen :: classList
  pageHash :: string
  pageAudioContext :: bool
  pageRequestApis :: "vendor list"
  pageExitApis :: "vendor list"

definition setupParticles :: "state \<Rightarrow> state" where
  "setupParticles s = s\<lparr>particles := particles s + 20\<rparr>"

definition handleInitialLoad :: "state \<Rightarrow> state" where
  "handleInitialLoad s = setTimeout 2500 LoadComplete s"

definition setupAccessibility :: "state \<Rightarrow> state" where
  "setupAccessibility s = setAriaHidden s"

definition init :: "state \<Rightarrow> state" where
  "init s =
     setupAccessibility (handleInitialLoad (setupParticles (updateNavDots (updateProgress s))))"

definition PresentationController :: "page \<Rightarrow> state" where
  "PresentationController p =
     init \<lparr>currentSlide = 1, totalSlides = 7, isFullscreen = False, isPresentationMode = False,
           soundEnabled = True, touchStartX = 0, touchEndX = 0, cursorTimeout = None,
           isLoaded = False,
           slides = pageSlides p, navDots = pageNavDots p, presentation = pagePresentation p,
           progressFill = None, soundToggle = pageSoundToggle p, soundIcon = pageSoundIcon p,
           loadingScreen = pageLoadingScreen p, loadingDisplay = None, particles = 0,
           announcements = [], locationHash = pageHash p, audioContext = pageAudioContext p,
           requestApis = pageRequestApis p, exitApis = pageExitApis p,
           timers = [], nextTimer = 1, effects = []\<rparr>"

subsection \<open>The query\<close>

record slideInfo =
  current :: int
  total :: int
  title :: string
  infoIsFullscreen :: bool
  infoIsPresentationMode :: bool

definition getCurrentSlideInfo :: "state \<Rightarrow> error + slideInfo" where
  "getCurrentSlideInfo s =
     (case slideAt s (currentSlide s - 1) of
        None \<Rightarrow> Inl TypeError
      | Some sl \<Rightarrow>
          (case heading sl of
             None \<Rightarrow> Inl TypeError
           | Some t \<Rightarrow>
               Inr \<lparr>current = currentSlide s, total = totalSlides s, title = t,
                    infoIsFullscreen = isFullscreen s,
                    infoIsPresentationMode = isPresentationMode s\<rparr>))"

subsection \<open>A page with seven slides\<close>

definition plainSlide :: "classList \<Rightarrow> string \<Rightarrow> slide" where
  "plainSlide cs t = \<lparr>classes = cs, ariaHidden = None, heading = Some t\<rparr>"

definition demoPage :: page where
  "demoPage =
     \<lparr>pageSlides = [plainSlide [''slide'', ''active''] ''One'', plainSlide [''slide''] ''Two'',
                     plainSlide [''slide''] ''Three'', plainSlide [''slide''] ''Four'',
                     plainSlide [''slide''] ''Five'', plainSlide [''slide''] ''Six'',
                     plainSlide [''slide''] ''Seven''],
      pageNavDots = [[''nav-dot'', ''active''], [''nav-dot''], [''nav-dot''], [''nav-dot''],
                     [''nav-dot''], [''nav-dot''], [''nav-dot'']],
      pagePresentation = [''presentation''],
      pageSoundToggle = [''sound-toggle''],
      pageSoundIcon = ''fas fa-volume-up'',
      pageLoadingScreen = [''loading-screen''],
      pageHash = [],
      pageAudioContext = True,
      pageRequestApis = [Standard],
      pageExitApis = [Standard]\<rparr>"

definition demoState :: state where
  "demoState = PresentationController demoPage"

subsection \<open>Properties of states\<close>

text \<open>The deck has seven slides and the current slide is one of them.\<close>

definition navInvariant :: "state \<Rightarrow> bool" where
  "navInvariant s = (totalSlides s = 7 \<and> 1 \<le> currentSlide s \<and> currentSlide s \<le> 7)"

text \<open>Every slide's \<open>aria-hidden\<close> attribute says whether it is not the current one.\<close>

definition ariaConsistent :: "state \<Rightarrow> bool" where
  "ariaConsistent s =
     (map ariaHidden (slides s) =
      map (\<lambda>index. Some (boolToString (int index + 1 \<noteq> currentSlide s))) [0..<length (slides s)])"

text \<open>The mute indicator: whether the toggle carries the class \<open>muted\<close>, and the class
  name of its icon. \<open>indicatorFor\<close> is the indicator \<open>toggleSound\<close> writes for a value
  of \<open>soundEnabled\<close>.\<close>

definition muteIndicator :: "state \<Rightarrow> bool \<times> string" where
  "muteIndicator s = (''muted'' \<in> set (soundToggle s), soundIcon s)"

definition indicatorFor :: "bool \<Rightarrow> bool \<times> string" where
  "indicatorFor enabled =
     (\<not> enabled, if enabled then ''fas fa-volume-up'' else ''fas fa-volume-mute'')"

section \<open>Frame lemmas\<close>

lemmas basic_defs = emit_def setTimeout_def clearTimeout_def setSlide_def updateProgress_def
  updateNavDots_def updateURL_def playTransitionSound_def announceSlideChange_def
  setAriaHidden_def

lemma currentSlide_frame [simp]:
  "currentSlide (emit e s) = currentSlide s"
  "currentSlide (setTimeout d t s) = currentSlide s"
  "currentSlide (clearTimeout k s) = currentSlide s"
  "currentSlide (setSlide i sl s) = currentSlide s"
  "currentSlide (updateProgress s) = currentSlide s"
  "currentSlide (updateNavDots s) = currentSlide s"
  "currentSlide (updateURL s) = currentSlide s"
  "currentSlide (playTransitionSound s) = currentSlide s"
  "currentSlide (announceSlideChange s) = currentSlide s"
  "currentSlide (setAriaHidden s) = currentSlide s"
  by (simp_all add: basic_defs Let_def)

lemma totalSlides_frame [simp]:
  "totalSlides (emit e s) = totalSlides s"
  "totalSlides (setTimeout d t s) = totalSlides s"
  "totalSlides (clearTimeout k s) = totalSlides s"
  "totalSlides (setSlide i sl s) = totalSlides s"
  "totalSlides (updateProgress s) = totalSlides s"
  "totalSlides (updateNavDots s) = totalSlides s"
  "totalSlides (updateURL s) = totalSlides s"
  "totalSlides (playTransitionSound s) = totalSlides s"
  "totalSlides (announceSlideChange s) = totalSlides s"
  "totalSlides (setAriaHidden s) = totalSlides s"
  by (simp_all add: basic_defs Let_def)

lemma slides_frame [simp]:
  "slides (emit e s) = slides s"
  "slides (setTimeout d t s) = slides s"
  "slides (clearTimeout k s) = slides s"
  "slides (updateProgress s) = slides s"
  "slides (updateNavDots s) = slides s"
  "slides (updateURL s) = slides s"
  "slides (playTransitionSound s) = slides s"
  "slides (announceSlideChange s) = slides s"
  "slides (setSlide i sl s) = (slides s)[nat i := sl]"
  by (simp_all add: basic_defs Let_def)

lemma slideAt_frame [simp]:
  "slideAt (emit e s) k = slideAt s k"
  "slideAt (setTimeout d t s) k = slideAt s k"
  "slideAt (updateProgress s) k = slideAt s k"
  "slideAt (updateNavDots s) k = slideAt s k"
  "slideAt (updateURL s) k = slideAt s k"
  "slideAt (s\<lparr>currentSlide := n\<rparr>) k = slideAt s k"
  by (simp_all add: slideAt_def)

lemma slideAt_setSlide:
  "slideAt (setSlide i sl s) k = (if slideAt s k = None then None else if nat i = nat k then Some sl else slideAt s k)"
  by (simp add: slideAt_def)

lemma triggerSlideAnimations_cases:
  "(slideAt s (n - 1) \<noteq> None \<and>
    (\<exists>s'. triggerSlideAnimations n s = Done s' \<and> currentSlide s' = currentSlide s \<and>
          totalSlides s' = totalSlides s \<and> slides s' = slides s))
   \<or> (slideAt s (n - 1) = None \<and> triggerSlideAnimations n s = Threw TypeError s)"
  by (simp add: triggerSlideAnimations_def Let_def split: option.splits)

text \<open>The three ways a call of the method can end.\<close>

lemma originalGoToSlide_cases:
  "(originalGoToSlide n s = Done s \<and> (n < 1 \<or> n > totalSlides s \<or> n = currentSlide s)) \<or>
   (originalGoToSlide n s = Threw TypeError s \<and> slideAt s (currentSlide s - 1) = None) \<or>
   (1 \<le> n \<and> n \<le> totalSlides s \<and> n \<noteq> currentSlide s \<and>
      slideAt s (currentSlide s - 1) \<noteq> None \<and>
      currentSlide (state_of (originalGoToSlide n s)) = n \<and>
      totalSlides (state_of (originalGoToSlide n s)) = totalSlides s \<and>
      length (slides (state_of (originalGoToSlide n s))) = length (slides s) \<and>
      map heading (slides (state_of (originalGoToSlide n s))) = map heading (slides s) \<and>
      (slideAt s (n - 1) \<noteq> None \<longrightarrow> (\<exists>s'. originalGoToSlide n s = Done s')))"
proof (cases "n < 1 \<or> n > totalSlides s \<or> n = currentSlide s")
  case True
  then show ?thesis by (simp add: originalGoToSlide_def)
next
  case False
  show ?thesis
  proof (cases "slideAt s (currentSlide s - 1)")
    case None
    with False show ?thesis by (simp add: originalGoToSlide_def)
  next
    case (Some old)
    define old' where "old' = old\<lparr>classes := classAdd ''prev'' (classRemove ''active'' (classes old))\<rparr>"
    define s4 where "s4 = updateURL (updateNavDots (updateProgress (setTimeout 50 (SlideEnter (currentSlide s))
       ((setSlide (currentSlide s - 1) old' s)\<lparr>currentSlide := n\<rparr>))))"
    have eq: "originalGoToSlide n s = andThen (triggerSlideAnimations (currentSlide s4) s4)
                   (\<lambda>s5. Done (announceSlideChange (playTransitionSound s5)))"
      using False Some by (simp add: originalGoToSlide_def Let_def s4_def old'_def)
    have c: "currentSlide s4 = n" "totalSlides s4 = totalSlides s" by (simp_all add: s4_def)
    have sl: "slides s4 = (slides s)[nat (currentSlide s - 1) := old']" by (simp add: s4_def)
    have old: "0 \<le> currentSlide s - 1" "nat (currentSlide s - 1) < length (slides s)"
              "slides s ! nat (currentSlide s - 1) = old"
      using Some by (auto simp: slideAt_def split: if_splits)
    have h: "map heading (slides s4) = map heading (slides s)"
      unfolding sl using old by (simp add: map_update old'_def list_update_same_conv)
    have len: "length (slides s4) = length (slides s)" by (simp add: sl)
    have at: "slideAt s4 (n - 1) = None \<longleftrightarrow> slideAt s (n - 1) = None"
      by (simp add: slideAt_def len)
    from triggerSlideAnimations_cases [of s4 "currentSlide s4"]
    show ?thesis
    proof
      assume "slideAt s4 (currentSlide s4 - 1) \<noteq> None \<and>
        (\<exists>s'. triggerSlideAnimations (currentSlide s4) s4 = Done s' \<and> currentSlide s' = currentSlide s4 \<and>
          totalSlides s' = totalSlides s4 \<and> slides s' = slides s4)"
      then obtain s' where s': "triggerSlideAnimations (currentSlide s4) s4 = Done s'"
          "currentSlide s' = currentSlide s4" "totalSlides s' = totalSlides s4" "slides s' = slides s4"
        by blast
      have "originalGoToSlide n s = Done (announceSlideChange (playTransitionSound s'))"
        using eq s'(1) by simp
      with s' c h len False Some show ?thesis by simp
    next
      assume a: "slideAt s4 (currentSlide s4 - 1) = None \<and> triggerSlideAnimations (currentSlide s4) s4 = Threw TypeError s4"
      then have "originalGoToSlide n s = Threw TypeError s4" using eq by simp
      moreover have "slideAt s (n - 1) = None" using a at c by simp
      ultimately show ?thesis using c h len False Some by simp
    qed
  qed
qed


lemma slides_setAriaHidden:
  "slides (setAriaHidden s) =
     map (\<lambda>(index, sl). sl\<lparr>ariaHidden := Some (boolToString (int index + 1 \<noteq> currentSlide s))\<rparr>)
       (enumerate 0 (slides s))"
  by (simp add: setAriaHidden_def)

lemma length_setAriaHidden [simp]: "length (slides (setAriaHidden s)) = length (slides s)"
  by (simp add: slides_setAriaHidden)

lemma nth_setAriaHidden:
  "i < length (slides s) \<Longrightarrow>
   slides (setAriaHidden s) ! i =
     (slides s ! i)\<lparr>ariaHidden := Some (boolToString (int i + 1 \<noteq> currentSlide s))\<rparr>"
  by (simp add: slides_setAriaHidden nth_enumerate_eq)

lemma heading_setAriaHidden [simp]:
  "map heading (slides (setAriaHidden s)) = map heading (slides s)"
  by (rule nth_equalityI) (simp_all add: nth_setAriaHidden)

lemma slideAt_setAriaHidden:
  "slideAt (setAriaHidden s) k = None \<longleftrightarrow> slideAt s k = None"
  by (simp add: slideAt_def)

lemma ariaConsistent_setAriaHidden: "ariaConsistent (setAriaHidden s)"
  unfolding ariaConsistent_def
  by (rule nth_equalityI) (simp_all add: nth_setAriaHidden)

lemma setAriaHidden_idem:
  assumes "ariaConsistent s"
  shows "setAriaHidden s = s"
proof -
  have "slides (setAriaHidden s) = slides s"
  proof (rule nth_equalityI)
    show "length (slides (setAriaHidden s)) = length (slides s)" by simp
  next
    fix i assume "i < length (slides (setAriaHidden s))"
    then have i: "i < length (slides s)" by simp
    have "map ariaHidden (slides s) ! i =
          map (\<lambda>index. Some (boolToString (int index + 1 \<noteq> currentSlide s))) [0..<length (slides s)] ! i"
      using assms by (simp add: ariaConsistent_def)
    then have "ariaHidden (slides s ! i) = Some (boolToString (int i + 1 \<noteq> currentSlide s))"
      using i by simp
    then show "slides (setAriaHidden s) ! i = slides s ! i"
      using i by (simp add: nth_setAriaHidden)
  qed
  then have "s\<lparr>slides := slides (setAriaHidden s)\<rparr> = s" by simp
  then show ?thesis by (simp add: setAriaHidden_def)
qed

lemma ariaConsistent_nth:
  assumes "ariaConsistent s" "i < length (slides s)"
  shows "ariaHidden (slides s ! i) = Some (if int i + 1 = currentSlide s then ''false'' else ''true'')"
proof -
  have "map ariaHidden (slides s) ! i =
        map (\<lambda>index. Some (boolToString (int index + 1 \<noteq> currentSlide s))) [0..<length (slides s)] ! i"
    using assms(1) by (simp add: ariaConsistent_def)
  then show ?thesis using assms(2) by (simp add: boolToString_def)
qed

lemma slideAt_in_deck:
  "length (slides s) = 7 \<Longrightarrow> 1 \<le> k \<Longrightarrow> k \<le> 7 \<Longrightarrow> slideAt s (k - 1) = Some (slides s ! nat (k - 1))"
  by (simp add: slideAt_def)

text \<open>On a page with seven slides the method completes.\<close>

lemma originalGoToSlide_completes:
  assumes "navInvariant s" "length (slides s) = 7"
  shows "\<exists>s'. originalGoToSlide n s = Done s' \<and> navInvariant s' \<and> length (slides s') = 7 \<and>
           map heading (slides s') = map heading (slides s) \<and>
           (1 \<le> n \<and> n \<le> 7 \<longrightarrow> currentSlide s' = n)"
proof -
  have cur: "slideAt s (currentSlide s - 1) \<noteq> None"
    using assms by (simp add: navInvariant_def slideAt_in_deck)
  show ?thesis
  proof (cases "n < 1 \<or> n > totalSlides s \<or> n = currentSlide s")
    case True
    then have "originalGoToSlide n s = Done s" by (simp add: originalGoToSlide_def)
    with True assms show ?thesis by (auto simp: navInvariant_def)
  next
    case False
    with originalGoToSlide_cases [of n s] cur
    have a: "currentSlide (state_of (originalGoToSlide n s)) = n"
      "totalSlides (state_of (originalGoToSlide n s)) = totalSlides s"
      "length (slides (state_of (originalGoToSlide n s))) = length (slides s)"
      "map heading (slides (state_of (originalGoToSlide n s))) = map heading (slides s)"
      "slideAt s (n - 1) \<noteq> None \<longrightarrow> (\<exists>s'. originalGoToSlide n s = Done s')"
      by blast+
    have n: "1 \<le> n" "n \<le> 7" using False assms(1) by (auto simp: navInvariant_def)
    then have "slideAt s (n - 1) \<noteq> None"
      using assms by (simp add: slideAt_in_deck)
    with a(5) obtain s' where s': "originalGoToSlide n s = Done s'" by blast
    with a n assms show ?thesis by (simp add: navInvariant_def)
  qed
qed

lemma goToSlide_completes:
  assumes "navInvariant s" "length (slides s) = 7"
  shows "\<exists>s'. goToSlide n s = Done s' \<and> navInvariant s' \<and> length (slides s') = 7 \<and>
           map heading (slides s') = map heading (slides s) \<and> ariaConsistent s' \<and>
           (1 \<le> n \<and> n \<le> 7 \<longrightarrow> currentSlide s' = n)"
proof -
  from originalGoToSlide_completes [OF assms, of n] obtain s1 where
    s1: "originalGoToSlide n s = Done s1" "navInvariant s1" "length (slides s1) = 7"
        "map heading (slides s1) = map heading (slides s)"
        "1 \<le> n \<and> n \<le> 7 \<longrightarrow> currentSlide s1 = n"
    by blast
  have "goToSlide n s = Done (setAriaHidden s1)" using s1(1) by (simp add: goToSlide_def)
  with s1 show ?thesis
    by (simp add: navInvariant_def ariaConsistent_setAriaHidden)
qed

lemma getCurrentSlideInfo_in_deck:
  assumes "navInvariant s" "length (slides s) = 7" "list_all (\<lambda>sl. heading sl \<noteq> None) (slides s)"
  shows "\<exists>info. getCurrentSlideInfo s = Inr info \<and> current info = currentSlide s \<and> total info = 7"
proof -
  let ?k = "nat (currentSlide s - 1)"
  have at: "slideAt s (currentSlide s - 1) = Some (slides s ! ?k)"
    using assms by (simp add: navInvariant_def slideAt_in_deck)
  have "?k < 7" using assms(1) unfolding navInvariant_def by linarith
  then have "?k < length (slides s)" using assms(2) by simp
  then have "heading (slides s ! ?k) \<noteq> None"
    using assms(3) by (simp add: list_all_length)
  then obtain t where "heading (slides s ! ?k) = Some t" by blast
  with at assms(1) show ?thesis by (simp add: getCurrentSlideInfo_def navInvariant_def)
qed

lemma headings_transfer:
  "map heading xs = map heading ys \<Longrightarrow> list_all (\<lambda>sl. heading sl \<noteq> None) ys \<Longrightarrow>
   list_all (\<lambda>sl. heading sl \<noteq> None) xs"
proof -
  assume a: "map heading xs = map heading ys" and b: "list_all (\<lambda>sl. heading sl \<noteq> None) ys"
  have "list_all (\<lambda>h. h \<noteq> None) (map heading ys)" using b by (simp add: list_all_iff)
  then have "list_all (\<lambda>h. h \<noteq> None) (map heading xs)" using a by simp
  then show ?thesis by (simp add: list_all_iff)
qed

text \<open>Facts about the state the constructor builds on the seven-slide page.\<close>

lemma demoState_facts:
  "navInvariant demoState" "length (slides demoState) = 7"
  "list_all (\<lambda>sl. heading sl \<noteq> None) (slides demoState)"
  "ariaConsistent demoState" "currentSlide demoState = 1" "totalSlides demoState = 7"
  "\<not> isLoaded demoState"
  by code_simp+

section \<open>Navigating and asking for the current slide\<close>

text \<open>
  Claim C3. On a page with seven slides that each have a heading, and with the current
  slide in range, for every \<open>n\<close> from 1 to 7 the call \<open>goToSlide(n)\<close> completes, and
  \<open>getCurrentSlideInfo()\<close> called next returns a record whose \<open>current\<close> is \<open>n\<close> and whose
  \<open>total\<close> is 7. This holds for the method of the class and for the wrapper that
  \<open>setupAccessibility\<close> installs over it.
\<close>

theorem goToSlide_then_info:
  assumes "navInvariant s" "length (slides s) = 7"
    and "list_all (\<lambda>sl. heading sl \<noteq> None) (slides s)"
    and "1 \<le> n" "n \<le> 7"
  shows "(\<exists>s' info. goToSlide n s = Done s' \<and> getCurrentSlideInfo s' = Inr info \<and>
            current info = n \<and> total info = 7) \<and>
         (\<exists>s' info. originalGoToSlide n s = Done s' \<and> getCurrentSlideInfo s' = Inr info \<and>
            current info = n \<and> total info = 7)"
proof
  from goToSlide_completes [OF assms(1,2), of n] assms(4,5) obtain s' where
    s': "goToSlide n s = Done s'" "navInvariant s'" "length (slides s') = 7"
        "map heading (slides s') = map heading (slides s)" "currentSlide s' = n"
    by blast
  have "list_all (\<lambda>sl. heading sl \<noteq> None) (slides s')"
    using headings_transfer [OF s'(4) assms(3)] .
  from getCurrentSlideInfo_in_deck [OF s'(2,3) this] s'(1,5)
  show "\<exists>s' info. goToSlide n s = Done s' \<and> getCurrentSlideInfo s' = Inr info \<and>
            current info = n \<and> total info = 7"
    by auto
next
  from originalGoToSlide_completes [OF assms(1,2), of n] assms(4,5) obtain s' where
    s': "originalGoToSlide n s = Done s'" "navInvariant s'" "length (slides s') = 7"
        "map heading (slides s') = map heading (slides s)" "currentSlide s' = n"
    by blast
  have "list_all (\<lambda>sl. heading sl \<noteq> None) (slides s')"
    using headings_transfer [OF s'(4) assms(3)] .
  from getCurrentSlideInfo_in_deck [OF s'(2,3) this] s'(1,5)
  show "\<exists>s' info. originalGoToSlide n s = Done s' \<and> getCurrentSlideInfo s' = Inr info \<and>
            current info = n \<and> total info = 7"
    by auto
qed

theorem goToSlide_then_info_witness:
  "(\<exists>s' info. goToSlide 4 demoState = Done s' \<and> getCurrentSlideInfo s' = Inr info \<and>
      current info = 4 \<and> total info = 7) \<and>
   (\<exists>s' info. originalGoToSlide 4 demoState = Done s' \<and> getCurrentSlideInfo s' = Inr info \<and>
      current info = 4 \<and> total info = 7)"
  using goToSlide_then_info [of demoState 4] demoState_facts by simp

section \<open>Calls of goToSlide that do nothing\<close>

text \<open>
  Claim C4. For every \<open>n\<close> below 1, above 7 or equal to the current slide,
  \<open>goToSlide(n)\<close> returns at its first test: the method of the class gives back the
  state it was given, field for field, so the current slide, the progress bar, the dots,
  the fragment, the timers, the live regions and the effect log are all as before. The
  wrapper of \<open>setupAccessibility\<close> then rewrites the \<open>aria-hidden\<close> attributes from the
  unchanged current slide; when they already agree with it, as they do after construction
  and after every completed call, the wrapped call gives back the same state too.
\<close>

theorem goToSlide_noop:
  assumes "totalSlides s = 7" and "n < 1 \<or> n > 7 \<or> n = currentSlide s"
  shows "originalGoToSlide n s = Done s \<and> (ariaConsistent s \<longrightarrow> goToSlide n s = Done s)"
proof -
  have "originalGoToSlide n s = Done s"
    using assms by (simp add: originalGoToSlide_def)
  then show ?thesis by (simp add: goToSlide_def setAriaHidden_idem)
qed

theorem goToSlide_noop_witness:
  "(originalGoToSlide 0 demoState = Done demoState \<and> goToSlide 0 demoState = Done demoState) \<and>
   (originalGoToSlide 8 demoState = Done demoState \<and> goToSlide 8 demoState = Done demoState) \<and>
   (originalGoToSlide 1 demoState = Done demoState \<and> goToSlide 1 demoState = Done demoState)"
  using goToSlide_noop [of demoState 0] goToSlide_noop [of demoState 8]
    goToSlide_noop [of demoState 1] demoState_facts
  by simp

section \<open>The aria-hidden attributes\<close>

text \<open>
  Claim C10. The constructor leaves every slide's \<open>aria-hidden\<close> equal to whether it is
  not the current slide, and on a page with seven slides and the current slide in range
  every call of \<open>goToSlide\<close> (the wrapper installed by \<open>setupAccessibility\<close>) completes
  and leaves the attribute \<open>"false"\<close> on the current slide and \<open>"true"\<close> on every
  other one.
\<close>

theorem goToSlide_aria:
  assumes "navInvariant s" "length (slides s) = 7"
  shows "ariaConsistent (PresentationController p) \<and>
         (\<exists>s'. goToSlide n s = Done s' \<and>
            (\<forall>i < length (slides s').
               ariaHidden (slides s' ! i) =
                 Some (if int i + 1 = currentSlide s' then ''false'' else ''true'')))"
proof
  show "ariaConsistent (PresentationController p)"
    by (simp add: PresentationController_def init_def setupAccessibility_def
        ariaConsistent_setAriaHidden)
next
  from goToSlide_completes [OF assms, of n] obtain s' where
    s': "goToSlide n s = Done s'" "ariaConsistent s'" by blast
  then show "\<exists>s'. goToSlide n s = Done s' \<and>
            (\<forall>i < length (slides s').
               ariaHidden (slides s' ! i) =
                 Some (if int i + 1 = currentSlide s' then ''false'' else ''true''))"
    using ariaConsistent_nth [OF s'(2)] by blast
qed

theorem goToSlide_aria_witness:
  "\<exists>s'. goToSlide 3 demoState = Done s' \<and>
     map ariaHidden (slides s') =
       [Some ''true'', Some ''true'', Some ''false'', Some ''true'', Some ''true'',
        Some ''true'', Some ''true'']"
proof -
  from goToSlide_aria [of demoState demoPage 3] demoState_facts obtain s' where
    s': "goToSlide 3 demoState = Done s'"
      "\<forall>i < length (slides s'). ariaHidden (slides s' ! i) =
                 Some (if int i + 1 = currentSlide s' then ''false'' else ''true'')"
    by blast
  have ev: "length (slides (state_of (goToSlide 3 demoState))) = 7"
     "currentSlide (state_of (goToSlide 3 demoState)) = 3" by code_simp+
  have len: "length (slides s') = 7" "currentSlide s' = 3" using ev s'(1) by simp_all
  have "map ariaHidden (slides s') = map (\<lambda>i. ariaHidden (slides s' ! i)) [0..<length (slides s')]"
    by (rule nth_equalityI) simp_all
  also have "\<dots> = map (\<lambda>i. Some (if int i + 1 = currentSlide s' then ''false'' else ''true'')) [0..<length (slides s')]"
    using s'(2) by simp
  also have "\<dots> = [Some ''true'', Some ''true'', Some ''false'', Some ''true'', Some ''true'',
        Some ''true'', Some ''true'']"
    unfolding len by (simp add: upt_rec)
  finally have m: "map ariaHidden (slides s') =
      [Some ''true'', Some ''true'', Some ''false'', Some ''true'', Some ''true'',
        Some ''true'', Some ''true'']" .
  show ?thesis by (rule exI [of _ s']) (simp only: s'(1) m simp_thms)
qed

section \<open>The ends of the deck\<close>

text \<open>
  Claim C6. \<open>nextSlide()\<close> on slide 7 of 7 gives back the state unchanged, and so does
  \<open>previousSlide()\<close> on slide 1: neither wraps around.
\<close>

theorem boundaries_do_not_wrap:
  "(totalSlides s = 7 \<and> currentSlide s = 7 \<longrightarrow> nextSlide s = Done s) \<and>
   (currentSlide s = 1 \<longrightarrow> previousSlide s = Done s)"
  by (simp add: nextSlide_def previousSlide_def)

theorem boundaries_do_not_wrap_witness:
  "nextSlide (state_of (goToSlide 7 demoState)) = Done (state_of (goToSlide 7 demoState)) \<and>
   previousSlide demoState = Done demoState"
proof -
  have "totalSlides (state_of (goToSlide 7 demoState)) = 7"
       "currentSlide (state_of (goToSlide 7 demoState)) = 7"
    by code_simp+
  then show ?thesis
    using boundaries_do_not_wrap [of "state_of (goToSlide 7 demoState)"]
      boundaries_do_not_wrap [of demoState] demoState_facts
    by simp
qed

section \<open>Swipes\<close>

text \<open>
  Claim C7. With \<open>delta = endX - startX\<close> for the recorded touch coordinates:
  when \<open>|delta| \<le> 50\<close> \<open>handleSwipe\<close> does nothing, when \<open>delta < -50\<close> it is the call
  \<open>nextSlide()\<close>, and when \<open>delta > 50\<close> it is the call \<open>previousSlide()\<close>.
\<close>

theorem swipe_threshold:
  "(\<bar>endX - startX\<bar> \<le> 50 \<longrightarrow>
      handleSwipe (s\<lparr>touchStartX := startX, touchEndX := endX\<rparr>) =
        Done (s\<lparr>touchStartX := startX, touchEndX := endX\<rparr>)) \<and>
   (endX - startX < - 50 \<longrightarrow>
      handleSwipe (s\<lparr>touchStartX := startX, touchEndX := endX\<rparr>) =
        nextSlide (s\<lparr>touchStartX := startX, touchEndX := endX\<rparr>)) \<and>
   (endX - startX > 50 \<longrightarrow>
      handleSwipe (s\<lparr>touchStartX := startX, touchEndX := endX\<rparr>) =
        previousSlide (s\<lparr>touchStartX := startX, touchEndX := endX\<rparr>))"
  by (simp add: handleSwipe_def Let_def)

theorem swipe_threshold_witness:
  "handleSwipe (demoState\<lparr>touchStartX := 100, touchEndX := 150\<rparr>) =
     Done (demoState\<lparr>touchStartX := 100, touchEndX := 150\<rparr>) \<and>
   handleSwipe (demoState\<lparr>touchStartX := 100, touchEndX := 40\<rparr>) =
     nextSlide (demoState\<lparr>touchStartX := 100, touchEndX := 40\<rparr>) \<and>
   handleSwipe (demoState\<lparr>touchStartX := 100, touchEndX := 160\<rparr>) =
     previousSlide (demoState\<lparr>touchStartX := 100, touchEndX := 160\<rparr>)"
  using swipe_threshold [of 150 100 demoState] swipe_threshold [of 40 100 demoState]
    swipe_threshold [of 160 100 demoState]
  by simp

section \<open>Fullscreen changes\<close>

lemmas mode_defs = enterFullscreen_def exitFullscreen_def toggleFullscreen_def
  clearCursorTimeout_def startCursorTimeout_def enterPresentationMode_def
  exitPresentationMode_def togglePresentationMode_def handleFullscreenChange_def
  handleMouseMove_def toggleSound_def handleResize_def setupParticles_def
  handleInitialLoad_def

text \<open>
  Claim C8. When a fullscreen-change notification is handled while the document reports
  a fullscreen element (under any of the four property names), \<open>isFullscreen\<close> and
  \<open>isPresentationMode\<close> are both true afterwards.
\<close>

theorem fullscreen_enters_presentation:
  assumes "fs \<or> wk \<or> mz \<or> ms"
  shows "isFullscreen (handleFullscreenChange fs wk mz ms s) \<and>
         isPresentationMode (handleFullscreenChange fs wk mz ms s)"
  using assms
  by (simp add: handleFullscreenChange_def enterPresentationMode_def startCursorTimeout_def
      clearCursorTimeout_def setTimeout_def clearTimeout_def Let_def split: option.splits)

theorem fullscreen_enters_presentation_witness:
  "isFullscreen (handleFullscreenChange True False False False demoState) \<and>
   isPresentationMode (handleFullscreenChange True False False False demoState) \<and>
   \<not> isFullscreen demoState \<and> \<not> isPresentationMode demoState"
proof -
  have "\<not> isFullscreen demoState" "\<not> isPresentationMode demoState" by code_simp+
  then show ?thesis
    using fullscreen_enters_presentation [of True False False False demoState] by simp
qed

section \<open>The current slide stays in range\<close>

lemma currentSlide_mode_frame [simp]:
  "currentSlide (enterFullscreen s) = currentSlide s"
  "currentSlide (exitFullscreen s) = currentSlide s"
  "currentSlide (toggleFullscreen s) = currentSlide s"
  "currentSlide (clearCursorTimeout s) = currentSlide s"
  "currentSlide (startCursorTimeout s) = currentSlide s"
  "currentSlide (enterPresentationMode s) = currentSlide s"
  "currentSlide (exitPresentationMode s) = currentSlide s"
  "currentSlide (togglePresentationMode s) = currentSlide s"
  "currentSlide (handleFullscreenChange fs wk mz ms s) = currentSlide s"
  "currentSlide (handleMouseMove s) = currentSlide s"
  "currentSlide (toggleSound s) = currentSlide s"
  "currentSlide (handleResize s) = currentSlide s"
  "currentSlide (setupParticles s) = currentSlide s"
  "currentSlide (handleInitialLoad s) = currentSlide s"
  by (simp_all add: mode_defs basic_defs Let_def split: option.splits)

lemma totalSlides_mode_frame [simp]:
  "totalSlides (enterFullscreen s) = totalSlides s"
  "totalSlides (exitFullscreen s) = totalSlides s"
  "totalSlides (toggleFullscreen s) = totalSlides s"
  "totalSlides (clearCursorTimeout s) = totalSlides s"
  "totalSlides (startCursorTimeout s) = totalSlides s"
  "totalSlides (enterPresentationMode s) = totalSlides s"
  "totalSlides (exitPresentationMode s) = totalSlides s"
  "totalSlides (togglePresentationMode s) = totalSlides s"
  "totalSlides (handleFullscreenChange fs wk mz ms s) = totalSlides s"
  "totalSlides (handleMouseMove s) = totalSlides s"
  "totalSlides (toggleSound s) = totalSlides s"
  "totalSlides (handleResize s) = totalSlides s"
  "totalSlides (setupParticles s) = totalSlides s"
  "totalSlides (handleInitialLoad s) = totalSlides s"
  by (simp_all add: mode_defs basic_defs Let_def split: option.splits)

lemma navInvariant_frame [simp]:
  "navInvariant (emit e s) = navInvariant s"
  "navInvariant (setTimeout d t s) = navInvariant s"
  "navInvariant (clearTimeout k s) = navInvariant s"
  "navInvariant (setSlide i sl s) = navInvariant s"
  "navInvariant (setAriaHidden s) = navInvariant s"
  "navInvariant (toggleFullscreen s) = navInvariant s"
  "navInvariant (exitFullscreen s) = navInvariant s"
  "navInvariant (exitPresentationMode s) = navInvariant s"
  "navInvariant (togglePresentationMode s) = navInvariant s"
  "navInvariant (handleFullscreenChange fs wk mz ms s) = navInvariant s"
  "navInvariant (handleMouseMove s) = navInvariant s"
  "navInvariant (toggleSound s) = navInvariant s"
  "navInvariant (handleResize s) = navInvariant s"
  by (simp_all add: navInvariant_def)

lemma navInvariant_fields [simp]:
  "navInvariant (s\<lparr>touchStartX := x\<rparr>) = navInvariant s"
  "navInvariant (s\<lparr>touchEndX := x\<rparr>) = navInvariant s"
  "navInvariant (s\<lparr>locationHash := h\<rparr>) = navInvariant s"
  "navInvariant (s\<lparr>loadingDisplay := d\<rparr>) = navInvariant s"
  "navInvariant (s\<lparr>presentation := cs\<rparr>) = navInvariant s"
  "navInvariant (s\<lparr>announcements := as\<rparr>) = navInvariant s"
  "navInvariant (s\<lparr>loadingScreen := cs, isLoaded := b\<rparr>) = navInvariant s"
  by (simp_all add: navInvariant_def)

lemma navInvariant_andThen:
  assumes "navInvariant (state_of oc)" and "\<And>s. navInvariant s \<Longrightarrow> navInvariant (state_of (f s))"
  shows "navInvariant (state_of (andThen oc f))"
  using assms by (cases oc) simp_all

lemma navInvariant_triggerSlideAnimations:
  "navInvariant s \<Longrightarrow> navInvariant (state_of (triggerSlideAnimations n s))"
  using triggerSlideAnimations_cases [of s n] by (auto simp: navInvariant_def)

lemma navInvariant_originalGoToSlide:
  assumes "navInvariant s"
  shows "navInvariant (state_of (originalGoToSlide n s))"
proof -
  from originalGoToSlide_cases [of n s]
  consider "originalGoToSlide n s = Done s" | "originalGoToSlide n s = Threw TypeError s"
    | "1 \<le> n \<and> n \<le> totalSlides s \<and> currentSlide (state_of (originalGoToSlide n s)) = n \<and>
       totalSlides (state_of (originalGoToSlide n s)) = totalSlides s"
    by blast
  then show ?thesis
  proof cases
    case 1 with assms show ?thesis by simp
  next
    case 2 with assms show ?thesis by simp
  next
    case 3 with assms show ?thesis by (simp add: navInvariant_def)
  qed
qed

lemma navInvariant_goToSlide:
  "navInvariant s \<Longrightarrow> navInvariant (state_of (goToSlide n s))"
  unfolding goToSlide_def
  by (rule navInvariant_andThen) (simp_all add: navInvariant_originalGoToSlide)

lemma navInvariant_nextSlide:
  "navInvariant s \<Longrightarrow> navInvariant (state_of (nextSlide s))"
  by (simp add: nextSlide_def navInvariant_goToSlide)

lemma navInvariant_previousSlide:
  "navInvariant s \<Longrightarrow> navInvariant (state_of (previousSlide s))"
  by (simp add: previousSlide_def navInvariant_goToSlide)

lemma navInvariant_handleHashNavigation:
  "navInvariant s \<Longrightarrow> navInvariant (state_of (handleHashNavigation s))"
  by (simp add: handleHashNavigation_def navInvariant_goToSlide split: option.splits)

lemma navInvariant_handleSwipe:
  "navInvariant s \<Longrightarrow> navInvariant (state_of (handleSwipe s))"
  by (simp add: handleSwipe_def Let_def navInvariant_nextSlide navInvariant_previousSlide)

lemma navInvariant_handleKeyDown:
  "navInvariant s \<Longrightarrow> navInvariant (state_of (handleKeyDown key s))"
  by (simp add: handleKeyDown_def Let_def navInvariant_nextSlide navInvariant_previousSlide
      navInvariant_goToSlide split: option.splits)

lemma navInvariant_runTask:
  "navInvariant s \<Longrightarrow> navInvariant (state_of (runTask t s))"
proof (cases t)
  case LoadComplete
  assume "navInvariant s"
  then show ?thesis unfolding LoadComplete runTask.simps Let_def
    by (intro navInvariant_andThen navInvariant_handleHashNavigation
        navInvariant_triggerSlideAnimations) simp_all
qed (simp_all split: option.splits)

lemma navInvariant_dispatch:
  "navInvariant s \<Longrightarrow> navInvariant (state_of (dispatch e s))"
  by (cases e)
     (simp_all add: navInvariant_handleKeyDown handleTouchStart_def handleTouchEnd_def Let_def
        navInvariant_handleSwipe navInvariant_goToSlide navInvariant_handleHashNavigation
        fireTimer_def navInvariant_runTask split: option.splits)

lemma navInvariant_constructor: "navInvariant (PresentationController p)"
  by (simp add: PresentationController_def init_def setupAccessibility_def navInvariant_def)

text \<open>
  Claim C5. The invariant \<open>1 \<le> currentSlide \<le> 7\<close> (with \<open>totalSlides = 7\<close>) holds for
  the state the constructor builds on any page, and every operation keeps it:
  \<open>goToSlide\<close> (the method and its wrapper), \<open>nextSlide\<close>, \<open>previousSlide\<close>, the
  keyboard handler with its numeric keys, hash navigation, swipe handling, the three
  toggles, and every listener and timer callback reached through \<open>dispatch\<close>. It is kept
  also when an operation ends in an uncaught exception.
\<close>

theorem currentSlide_in_range:
  "navInvariant (PresentationController p) \<and>
   (navInvariant s \<longrightarrow>
      navInvariant (state_of (goToSlide n s)) \<and>
      navInvariant (state_of (originalGoToSlide n s)) \<and>
      navInvariant (state_of (nextSlide s)) \<and>
      navInvariant (state_of (previousSlide s)) \<and>
      navInvariant (state_of (handleKeyDown key s)) \<and>
      navInvariant (state_of (handleHashNavigation s)) \<and>
      navInvariant (state_of (handleSwipe s)) \<and>
      navInvariant (toggleFullscreen s) \<and>
      navInvariant (togglePresentationMode s) \<and>
      navInvariant (toggleSound s) \<and>
      navInvariant (state_of (dispatch e s)))"
  by (simp add: navInvariant_constructor navInvariant_goToSlide navInvariant_originalGoToSlide
      navInvariant_nextSlide navInvariant_previousSlide navInvariant_handleKeyDown
      navInvariant_handleHashNavigation navInvariant_handleSwipe navInvariant_dispatch)


theorem currentSlide_in_range_witness:
  "navInvariant (PresentationController demoPage) \<and>
   navInvariant (state_of (goToSlide 9 demoState)) \<and>
   navInvariant (state_of (originalGoToSlide 4 demoState)) \<and>
   navInvariant (state_of (nextSlide demoState)) \<and>
   navInvariant (state_of (previousSlide demoState)) \<and>
   navInvariant (state_of (handleKeyDown ''End'' demoState)) \<and>
   navInvariant (state_of (handleHashNavigation demoState)) \<and>
   navInvariant (state_of (handleSwipe demoState)) \<and>
   navInvariant (toggleFullscreen demoState) \<and>
   navInvariant (togglePresentationMode demoState) \<and>
   navInvariant (toggleSound demoState) \<and>
   navInvariant (state_of (dispatch (NavDotClick 6) demoState))"
  using currentSlide_in_range [of demoPage demoState 9 "''End''" "NavDotClick 6"]
    currentSlide_in_range [of demoPage demoState 4 "''End''" "NavDotClick 6"]
    demoState_facts(1)
  by simp

section \<open>Input before the page has loaded\<close>

text \<open>
  Claim C2, amended. A key-down, a touch start and a touch end that arrive while
  \<open>isLoaded\<close> is false leave the state entirely unchanged. Clicks are not gated on
  \<open>isLoaded\<close>: a click on the sound toggle flips \<open>soundEnabled\<close> and a click on a
  navigation dot calls \<open>goToSlide(index + 1)\<close>, whether or not loading has completed.
\<close>

theorem input_before_load:
  "(\<not> isLoaded s \<longrightarrow>
      dispatch (KeyDown key) s = Done s \<and>
      dispatch (TouchStart screenX) s = Done s \<and>
      dispatch (TouchEnd screenX) s = Done s) \<and>
   soundEnabled (state_of (dispatch SoundToggleClick s)) = (\<not> soundEnabled s) \<and>
   (index < length (navDots s) \<longrightarrow>
      dispatch (NavDotClick index) s = goToSlide (int index + 1) s)"
  by (simp add: handleKeyDown_def handleTouchStart_def handleTouchEnd_def toggleSound_def Let_def)

theorem input_before_load_witness:
  "\<not> isLoaded demoState \<and>
   dispatch (KeyDown ''ArrowRight'') demoState = Done demoState \<and>
   dispatch (TouchStart 100) demoState = Done demoState \<and>
   dispatch (TouchEnd 100) demoState = Done demoState \<and>
   dispatch (NavDotClick 1) demoState = goToSlide 2 demoState"
proof -
  have "(1::nat) < length (navDots demoState)" by code_simp
  then show ?thesis
    using input_before_load [of demoState "''ArrowRight''" 100 1] demoState_facts(7)
    by simp
qed

text \<open>
  Clicks that arrive before loading has completed do change the state. On the state the
  constructor builds, before the load timer has fired, a click on the second dot moves to
  slide 2 and a click on the sound toggle switches the sound off.
\<close>

theorem clicks_before_load_counterexample:
  "\<not> isLoaded demoState \<and>
   currentSlide demoState = 1 \<and>
   currentSlide (state_of (dispatch (NavDotClick 1) demoState)) = 2 \<and>
   soundEnabled demoState \<and>
   \<not> soundEnabled (state_of (dispatch SoundToggleClick demoState))"
  by code_simp

section \<open>Toggling the sound twice\<close>

lemma muted_classToggle [simp]:
  "(''muted'' \<in> set (classToggle ''muted'' force cs)) = force"
  by (simp add: classToggle_def classAdd_def classRemove_def)

text \<open>
  Claim C9, amended. Two calls of \<open>toggleSound()\<close> always return \<open>soundEnabled\<close> to its
  original value, and they leave the mute indicator as \<open>toggleSound\<close> writes it for that
  value: the class \<open>muted\<close> present exactly when the sound is off, the icon
  \<open>fas fa-volume-up\<close> when it is on and \<open>fas fa-volume-mute\<close> when it is off. So the
  indicator is restored whenever it agreed with \<open>soundEnabled\<close> to begin with, which is
  the case after any call of \<open>toggleSound\<close>.
\<close>

theorem toggleSound_twice:
  "soundEnabled (toggleSound (toggleSound s)) = soundEnabled s \<and>
   muteIndicator (toggleSound s) = indicatorFor (soundEnabled (toggleSound s)) \<and>
   muteIndicator (toggleSound (toggleSound s)) = indicatorFor (soundEnabled s) \<and>
   (muteIndicator s = indicatorFor (soundEnabled s) \<longrightarrow>
      muteIndicator (toggleSound (toggleSound s)) = muteIndicator s)"
  by (simp add: toggleSound_def muteIndicator_def indicatorFor_def Let_def)

theorem toggleSound_twice_witness:
  "soundEnabled (toggleSound (toggleSound demoState)) = soundEnabled demoState \<and>
   muteIndicator (toggleSound (toggleSound demoState)) = muteIndicator demoState \<and>
   muteIndicator demoState = (False, ''fas fa-volume-up'')"
proof -
  have "muteIndicator demoState = indicatorFor (soundEnabled demoState)"
       "muteIndicator demoState = (False, ''fas fa-volume-up'')"
    by code_simp+
  then show ?thesis using toggleSound_twice [of demoState] by simp
qed

text \<open>
  The indicator is not restored from every starting state: \<open>toggleSound\<close> does not
  flip the indicator, it overwrites it from \<open>soundEnabled\<close>, and the constructor takes
  the indicator from the markup as it is. On a page whose icon carries other class names
  than the two the script writes, two toggles leave \<open>fas fa-volume-up\<close> in their place.
\<close>

theorem toggleSound_twice_counterexample:
  "soundEnabled (PresentationController (demoPage\<lparr>pageSoundIcon := ''fa-solid fa-volume-high''\<rparr>)) \<and>
   soundIcon (PresentationController (demoPage\<lparr>pageSoundIcon := ''fa-solid fa-volume-high''\<rparr>)) =
     ''fa-solid fa-volume-high'' \<and>
   soundIcon (toggleSound (toggleSound
       (PresentationController (demoPage\<lparr>pageSoundIcon := ''fa-solid fa-volume-high''\<rparr>)))) =
     ''fas fa-volume-up'' \<and>
   muteIndicator (toggleSound (toggleSound
       (PresentationController (demoPage\<lparr>pageSoundIcon := ''fa-solid fa-volume-high''\<rparr>)))) \<noteq>
     muteIndicator (PresentationController (demoPage\<lparr>pageSoundIcon := ''fa-solid fa-volume-high''\<rparr>))"
  by code_simp

section \<open>Hash navigation\<close>

text \<open>The only strings the pattern captures begin with a backslash, and \<open>parseInt\<close>
  makes \<open>NaN\<close> of them, so \<open>handleHashNavigation\<close> never reaches \<open>goToSlide\<close>.\<close>

lemma parseInt_backslash: "parseInt (CHR 0x5C # ds) = None"
  by (simp add: parseInt_def Let_def isWhiteSpace_def digitVal_def)

lemma slideMatch_backslash: "slideMatch str = Some g \<Longrightarrow> \<exists>ds. g = CHR 0x5C # ds"
  by (induction str) (auto simp: matchHere_def split: option.splits if_splits)

lemma handleHashNavigation_inert: "handleHashNavigation s = Done s"
proof (cases "slideMatch (locationHash s)")
  case None
  then show ?thesis by (simp add: handleHashNavigation_def)
next
  case (Some g)
  with slideMatch_backslash obtain ds where "g = CHR 0x5C # ds" by blast
  with Some show ?thesis by (simp add: handleHashNavigation_def parseInt_backslash)
qed

text \<open>
  Claim C1. The claim is that the fragment \<open>#slide4\<close> navigates to slide 4. The pattern
  of \<open>handleHashNavigation\<close> does not match \<open>#slide4\<close>: on the loaded seven-slide page
  standing on slide 1, a hash change to \<open>#slide4\<close> changes nothing but the fragment, and
  when the page is opened with that fragment the load callback leaves it on slide 1.
\<close>

theorem hash_slide4_not_followed:
  "slideMatch ''#slide4'' = None \<and>
   currentSlide (demoState\<lparr>isLoaded := True\<rparr>) = 1 \<and>
   dispatch (HashChange ''#slide4'') (demoState\<lparr>isLoaded := True\<rparr>) =
     Done (demoState\<lparr>isLoaded := True, locationHash := ''#slide4''\<rparr>) \<and>
   isLoaded (state_of (fireTimer 1 (PresentationController (demoPage\<lparr>pageHash := ''#slide4''\<rparr>)))) \<and>
   currentSlide (state_of (fireTimer 1 (PresentationController (demoPage\<lparr>pageHash := ''#slide4''\<rparr>)))) = 1"
  by code_simp

end
